theory Spec2Isabelle
  imports Main
begin

section \<open>Strings\<close>

text \<open>
  Python strings are modelled as \<^typ>\<open>string\<close>, one \<^typ>\<open>char\<close> per code point, which
  covers the code points below 256. \<open>str.strip()\<close> without argument removes the leading
  and trailing characters for which \<open>str.isspace\<close> holds; below 256 these are the code
  points 9 to 13, 28 to 32, 133 and 160.
\<close>

definition isspace :: "char \<Rightarrow> bool" where
  "isspace c =
     (let n = (of_char c :: nat)
      in (9 \<le> n \<and> n \<le> 13) \<or> (28 \<le> n \<and> n \<le> 32) \<or> n = 133 \<or> n = 160)"

definition strip :: "string \<Rightarrow> string" where
  "strip s = rev (dropWhile isspace (rev (dropWhile isspace s)))"

section \<open>Shot sequences (tdata/match\_charting/shot\_sequence.py)\<close>

text \<open>
  The exceptions that can leave \<open>ShotSequence.from_code\<close>: the
  \<open>CodeParsingException\<close> it raises itself (with its message), the \<open>AttributeError\<close>
  of \<open>second_code.strip()\<close> when \<open>second_code\<close> is \<open>None\<close>, the \<open>AssertionError\<close> of
  the constructor, and whatever \<open>Serve.from_code\<close> or \<open>Rally.from_code\<close> raise, which
  \<open>from_code\<close> does not catch: \<open>Propagated e\<close>.
\<close>

datatype 'e error =
    CodeParsingException string
  | AttributeError
  | AssertionError
  | Propagated 'e

text \<open>The attributes set by \<open>ShotSequence.__init__\<close>.\<close>

record ('p, 's, 'r) shot_sequence =
  server :: 'p
  returner :: 'p
  server_won :: bool
  rally :: "'r option"
  not_coded :: bool
  first_serve :: "'s option"
  second_serve :: "'s option"
  server_lost_outright :: bool
  server_won_outright :: bool

text \<open>
  \<open>ShotSequence.__init__\<close>, with its keyword arguments in the order of the signature.
  The \<open>assert\<close> is the only way the constructor fails.
\<close>

definition ShotSequence ::
  "'p \<Rightarrow> 'p \<Rightarrow> bool \<Rightarrow> 's option \<Rightarrow> 's option \<Rightarrow> 'r option \<Rightarrow> bool \<Rightarrow> bool \<Rightarrow> bool
     \<Rightarrow> 'e error + ('p, 's, 'r) shot_sequence" where
  "ShotSequence srv ret won first_serve' second_serve' rally' not_coded'
       server_lost_outright' server_won_outright' =
     (if not_coded' \<or> server_lost_outright' \<or> server_won_outright' \<or> first_serve' \<noteq> None
      then Inr \<lparr>server = srv, returner = ret, server_won = won, rally = rally',
                not_coded = not_coded', first_serve = first_serve',
                second_serve = second_serve',
                server_lost_outright = server_lost_outright',
                server_won_outright = server_won_outright'\<rparr>
      else Inl AssertionError)"

text \<open>
  \<open>Serve\<close>, \<open>Rally\<close> and \<open>FaultEnum\<close> are imported by shot\_sequence.py from modules that
  are not part of the sources at hand. \<open>from_code\<close> uses of them exactly the following,
  which the model takes as parameters: the values of the members of \<open>FaultEnum\<close>,
  \<open>Serve.from_code(code, server, is_first)\<close> returning a serve and the remaining code or
  raising, the predicates \<open>was_fault()\<close> and \<open>had_rally()\<close> of a serve, and
  \<open>Rally.from_code(code, server, returner)\<close> returning a rally or raising.
\<close>

record ('p, 's, 'r, 'e) charting =
  FaultEnum_values :: "string list"
  Serve_from_code :: "string \<Rightarrow> 'p \<Rightarrow> bool \<Rightarrow> 'e + ('s \<times> string)"
  was_fault :: "'s \<Rightarrow> bool"
  had_rally :: "'s \<Rightarrow> bool"
  Rally_from_code :: "string \<Rightarrow> 'p \<Rightarrow> 'p \<Rightarrow> 'e + 'r"

text \<open>
  \<open>ShotSequence.from_code\<close>, in two parts. \<open>decode_serves\<close> is the second part of
  the method (from the comment ``Parse first serve'' to the final \<open>return\<close>), which runs
  on the first code as the first part leaves it. \<open>second_code\<close> is an optional string:
  \<open>None\<close> has no \<open>strip\<close> method, and the call raises \<open>AttributeError\<close>.
\<close>

definition decode_serves ::
  "('p, 's, 'r, 'e) charting \<Rightarrow> 'p \<Rightarrow> 'p \<Rightarrow> bool \<Rightarrow> string \<Rightarrow> string option
     \<Rightarrow> 'e error + ('p, 's, 'r) shot_sequence" where
  "decode_serves D srv ret won first_code second_code =
     (case Serve_from_code D first_code srv True of
        Inl e \<Rightarrow> Inl (Propagated e)
      | Inr (first_serve', remaining_code) \<Rightarrow>
          if was_fault D first_serve' then
            (case second_code of
               None \<Rightarrow> Inl AttributeError
             | Some second_code \<Rightarrow>
                 (case Serve_from_code D (strip second_code) srv False of
                    Inl e \<Rightarrow> Inl (Propagated e)
                  | Inr (second_serve', remaining_code) \<Rightarrow>
                      if had_rally D second_serve' then
                        (case Rally_from_code D remaining_code srv ret of
                           Inl e \<Rightarrow> Inl (Propagated e)
                         | Inr rally' \<Rightarrow>
                             ShotSequence srv ret won (Some first_serve')
                               (Some second_serve') (Some rally') False False False)
                      else
                        ShotSequence srv ret won (Some first_serve')
                          (Some second_serve') None False False False))
          else if had_rally D first_serve' then
            (case Rally_from_code D remaining_code srv ret of
               Inl e \<Rightarrow> Inl (Propagated e)
             | Inr rally' \<Rightarrow>
                 ShotSequence srv ret won (Some first_serve') None (Some rally')
                   False False False)
          else
            ShotSequence srv ret won (Some first_serve') None None False False False)"

text \<open>
  The first part: the code is stripped, and a code of one character is a shortcut, a
  bare fault letter (which gets the digit \<open>0\<close> in front) or unknown.
\<close>

definition from_code ::
  "('p, 's, 'r, 'e) charting \<Rightarrow> 'p \<Rightarrow> 'p \<Rightarrow> bool \<Rightarrow> string \<Rightarrow> string option
     \<Rightarrow> 'e error + ('p, 's, 'r) shot_sequence" where
  "from_code D srv ret won first_code second_code =
     (let first_code = strip first_code
      in if length first_code = 1 then
           (let possible_faults = FaultEnum_values D
            in if first_code \<in> set [''S'', ''R''] then
                 ShotSequence srv ret won None None None True False False
               else if first_code = ''P'' then
                 ShotSequence srv ret won None None None False True False
               else if first_code = ''Q'' then
                 ShotSequence srv ret won None None None False False True
               else if first_code \<in> set possible_faults then
                 decode_serves D srv ret won (''0'' @ first_code) second_code
               else
                 Inl (CodeParsingException
                        (''Unknown single-character code: '' @ first_code)))
         else decode_serves D srv ret won first_code second_code)"

text \<open>
  The code that \<open>from_code\<close> hands to \<open>Serve.from_code\<close> for the first serve, when it
  gets that far: \<open>None\<close> for a shortcut and for an unknown single character.
\<close>

definition first_serve_code :: "string list \<Rightarrow> string \<Rightarrow> string option" where
  "first_serve_code possible_faults first_code =
     (let c = strip first_code
      in if length c = 1 then
           (if c \<in> set [''S'', ''R'', ''P'', ''Q''] then None
            else if c \<in> set possible_faults then Some (''0'' @ c)
            else None)
         else Some c)"

text \<open>
  The construction-time invariant: the condition of the constructor's \<open>assert\<close>, read on
  the attributes of the finished object.
\<close>

definition shape_ok :: "('p, 's, 'r) shot_sequence \<Rightarrow> bool" where
  "shape_ok x =
     (not_coded x \<or> server_lost_outright x \<or> server_won_outright x \<or> first_serve x \<noteq> None)"

section \<open>Serve decoding, from the specification\<close>

text \<open>
  The failure kinds the specification lists for the decoder (section 7).
\<close>

datatype notation_error =
    UnknownCode string
  | MalformedSequence string
  | MissingRequiredServe

text \<open>
  The outcome of a serve (section 3 of the specification): a fault, or one of the ways a
  serve is in play.
\<close>

datatype serve_outcome = Fault | Ace | ServiceWinner | ReturnInPlay | Unreturnable

text \<open>
  A serve, with the attributes of section 3. \<open>fault_kind\<close> is \<open>None\<close> for no fault and
  otherwise the value of the member of \<open>FaultEnum\<close>; \<open>direction\<close> is \<open>None\<close> for an unknown
  direction and otherwise the direction digit.
\<close>

record 'p serve =
  serve_server :: 'p
  is_first :: bool
  raw_code :: string
  fault_kind :: "string option"
  direction :: "char option"
  outcome :: serve_outcome

definition isdigit :: "char \<Rightarrow> bool" where
  "isdigit c = (c \<in> set ''0123456789'')"

text \<open>
  Modelled from the spec: \<open>Serve.from_code\<close>, which is absent from the sources at hand,
  after section 4.3. A leading digit is the direction, and the digit \<open>0\<close> that
  \<open>ShotSequence.from_code\<close> puts in front of a bare fault letter stands for the unknown
  direction. If the next character is a fault letter, the serve is a fault of that kind
  and decoding stops; a fault letter with no digit before it is a fault of unknown
  direction. Otherwise the serve is in play and the remaining characters are returned
  as the input of the rally. The specification names no characters for the in-play
  outcomes, so their classification \<open>in_play\<close> is a parameter, as is the list \<open>faults\<close> of
  the fault letters. A first serve with no code at all is the failure
  \<open>MissingRequiredServe\<close> of section 7.
\<close>

definition Serve_from_code_spec ::
  "string list \<Rightarrow> (string \<Rightarrow> serve_outcome) \<Rightarrow> string \<Rightarrow> 'p \<Rightarrow> bool
     \<Rightarrow> notation_error + ('p serve \<times> string)" where
  "Serve_from_code_spec faults in_play code srv first =
     (if code = [] \<and> first then Inl MissingRequiredServe
      else
        (let (dir, rest) =
               (case code of
                  [] \<Rightarrow> (None, [])
                | d # rest' \<Rightarrow>
                    if isdigit d then ((if d = CHR ''0'' then None else Some d), rest')
                    else (None, code))
         in case rest of
              [] \<Rightarrow>
                Inr (\<lparr>serve_server = srv, is_first = first, raw_code = code,
                       fault_kind = None, direction = dir, outcome = in_play rest\<rparr>, rest)
            | f # rest' \<Rightarrow>
                if [f] \<in> set faults then
                  Inr (\<lparr>serve_server = srv, is_first = first, raw_code = code,
                         fault_kind = Some [f], direction = dir, outcome = Fault\<rparr>, rest')
                else
                  Inr (\<lparr>serve_server = srv, is_first = first, raw_code = code,
                         fault_kind = None, direction = dir, outcome = in_play rest\<rparr>,
                       rest)))"

text \<open>
  Modelled from the spec: \<open>Serve.was_fault\<close> and \<open>Serve.had_rally\<close>, absent from the
  sources at hand, after section 4.3: a serve was a fault when its fault kind is not
  none, and it had a rally when it was returned in play (an ace, a service winner and
  an unreturnable serve end the point).
\<close>

definition was_fault_spec :: "'p serve \<Rightarrow> bool" where
  "was_fault_spec s = (fault_kind s \<noteq> None)"

definition had_rally_spec :: "'p serve \<Rightarrow> bool" where
  "had_rally_spec s = (outcome s = ReturnInPlay)"

text \<open>
  The collaborators of \<open>from_code\<close> with the serve of the specification; the decoder of
  the rally stays a parameter.
\<close>

definition spec_charting ::
  "string list \<Rightarrow> (string \<Rightarrow> serve_outcome) \<Rightarrow> (string \<Rightarrow> 'p \<Rightarrow> 'p \<Rightarrow> notation_error + 'r)
     \<Rightarrow> ('p, 'p serve, 'r, notation_error) charting" where
  "spec_charting faults in_play rally_decoder =
     \<lparr>FaultEnum_values = faults,
      Serve_from_code = Serve_from_code_spec faults in_play,
      was_fault = was_fault_spec,
      had_rally = had_rally_spec,
      Rally_from_code = rally_decoder\<rparr>"

text \<open>
  An instance to run the decoder on: the fault letters and the two point-ending marks
  are those of the Match Charting Project's notation (\<open>n\<close> net, \<open>w\<close> wide, \<open>d\<close> deep,
  \<open>x\<close> wide and deep, \<open>g\<close> foot fault, \<open>e\<close> unknown; \<open>*\<close> ace, \<open>#\<close> unreturnable), and
  a rally is kept as the code it is decoded from.
\<close>

definition example_in_play :: "string \<Rightarrow> serve_outcome" where
  "example_in_play rest =
     (if rest = ''*'' then Ace else if rest = ''#'' then Unreturnable else ReturnInPlay)"

definition example_charting :: "(string, string serve, string, notation_error) charting" where
  "example_charting =
     spec_charting [''n'', ''w'', ''d'', ''x'', ''g'', ''e''] example_in_play
       (\<lambda>code srv ret. Inr code)"

section \<open>Turning rows into matches (tdata/datasets/dataset.py)\<close>

text \<open>
  A row is one of the records of \<open>df.to_dict('records')\<close>: a dictionary from column
  names to cell values. Reading a missing key raises \<open>KeyError\<close>.
\<close>

type_synonym 'v row = "string \<rightharpoonup> 'v"

text \<open>
  What the constructor \<open>ParsedStringScore\<close> can raise: the \<open>BadFormattingException\<close>
  that \<open>turn_into_matches\<close> catches, or anything else, which it does not catch.
\<close>

datatype 'x parse_error = BadFormattingException | OtherException 'x

text \<open>
  The exceptions that can leave \<open>turn_into_matches\<close>: a \<open>KeyError\<close> with the missing
  key, or an exception raised inside \<open>calculate_stats\<close>, \<open>ParsedStringScore\<close> or
  \<open>CompletedMatch\<close>.
\<close>

datatype 'x exn = KeyError string | Raised 'x

text \<open>The keyword arguments of the call of \<open>CompletedMatch\<close>.\<close>

record ('v, 'st, 'sc) match_args =
  p1 :: 'v
  p2 :: 'v
  date :: 'v
  winner :: 'v
  stats :: 'st
  tournament_name :: 'v
  surface :: "'v option"
  tournament_round :: 'v
  odds :: "('v \<rightharpoonup> 'v) option"
  score :: 'sc

text \<open>
  \<open>calculate_stats\<close> is a method of the subclasses of \<open>Dataset\<close>, and
  \<open>ParsedStringScore\<close> and \<open>CompletedMatch\<close> are imported from modules that are not part
  of the sources at hand. The model takes them as parameters: \<open>calculate_stats(winner,
  loser, row)\<close> returning the statistics or raising, \<open>ParsedStringScore(score, winner,
  loser)\<close> returning a parsed score or raising, the attribute \<open>sets\<close> of a parsed score,
  and \<open>CompletedMatch\<close> returning a match from its keyword arguments or raising.
\<close>

record ('v, 'st, 'sc, 'se, 'm, 'x) dataset =
  calculate_stats :: "'v \<Rightarrow> 'v \<Rightarrow> 'v row \<Rightarrow> 'x + 'st"
  ParsedStringScore :: "'v \<Rightarrow> 'v \<Rightarrow> 'v \<Rightarrow> 'x parse_error + 'sc"
  sets :: "'sc \<Rightarrow> 'se list"
  CompletedMatch :: "('v, 'st, 'sc) match_args \<Rightarrow> 'x + 'm"

text \<open>
  What one pass through the body of the loop of \<open>turn_into_matches\<close> does: it goes on
  to the next row with \<open>continue\<close>, it yields a match, or it raises.
\<close>

datatype ('m, 'x) step = Continue | Yield 'm | Raise "'x exn"

definition loop_body ::
  "('v, 'st, 'sc, 'se, 'm, 'x) dataset \<Rightarrow> 'v row \<Rightarrow> ('m, 'x) step" where
  "loop_body D row =
     (case row ''winner'' of None \<Rightarrow> Raise (KeyError ''winner'') | Some w \<Rightarrow>
      case row ''loser'' of None \<Rightarrow> Raise (KeyError ''loser'') | Some l \<Rightarrow>
      case calculate_stats D w l row of Inl e \<Rightarrow> Raise (Raised e) | Inr stats' \<Rightarrow>
      case row ''score'' of None \<Rightarrow> Raise (KeyError ''score'') | Some sc \<Rightarrow>
      case ParsedStringScore D sc w l of
        Inl BadFormattingException \<Rightarrow> Continue
      | Inl (OtherException e) \<Rightarrow> Raise (Raised e)
      | Inr score' \<Rightarrow>
          if length (sets D score') < 2 then Continue
          else
            (let cur_surface = row ''surface''
             in case (if ''odds_winner'' \<in> dom row then
                        (case row ''winner_odds'' of
                           None \<Rightarrow> Inl (KeyError ''winner_odds'')
                         | Some wo \<Rightarrow>
                             (case row ''loser_odds'' of
                                None \<Rightarrow> Inl (KeyError ''loser_odds'')
                              | Some lo \<Rightarrow> Inr (Some [w \<mapsto> wo, l \<mapsto> lo])))
                      else Inr None) of
                  Inl e \<Rightarrow> Raise e
                | Inr odds' \<Rightarrow>
                    (case row ''start_date'' of
                       None \<Rightarrow> Raise (KeyError ''start_date'')
                     | Some d \<Rightarrow>
                     case row ''tournament_name'' of
                       None \<Rightarrow> Raise (KeyError ''tournament_name'')
                     | Some t \<Rightarrow>
                     case row ''round_number'' of
                       None \<Rightarrow> Raise (KeyError ''round_number'')
                     | Some r \<Rightarrow>
                     case CompletedMatch D
                            \<lparr>p1 = w, p2 = l, date = d, winner = w, stats = stats',
                             tournament_name = t, surface = cur_surface,
                             tournament_round = r, odds = odds', score = score'\<rparr> of
                       Inl e \<Rightarrow> Raise (Raised e)
                     | Inr m \<Rightarrow> Yield m)))"

text \<open>
  \<open>turn_into_matches\<close> is a generator: the result is the list of the matches it yields,
  in order, and the exception that ends it, if one does.
\<close>

fun turn_into_matches ::
  "('v, 'st, 'sc, 'se, 'm, 'x) dataset \<Rightarrow> 'v row list \<Rightarrow> 'm list \<times> 'x exn option" where
  "turn_into_matches D [] = ([], None)"
| "turn_into_matches D (row # records) =
     (case loop_body D row of
        Continue \<Rightarrow> turn_into_matches D records
      | Yield m \<Rightarrow> (case turn_into_matches D records of (ms, e) \<Rightarrow> (m # ms, e))
      | Raise e \<Rightarrow> ([], Some e))"

text \<open>
  An instance to run the generator on: cells are strings, the statistics are empty, a
  score is well formed when it consists of digits, hyphens and blanks, its sets are its
  blank-separated parts, and a match is its keyword arguments.
\<close>

fun split_blanks :: "string \<Rightarrow> string \<Rightarrow> string list" where
  "split_blanks acc [] = [rev acc]"
| "split_blanks acc (c # cs) =
     (if c = CHR '' '' then rev acc # split_blanks [] cs else split_blanks (c # acc) cs)"

definition example_dataset ::
  "(string, unit, string list, string, (string, unit, string list) match_args, unit) dataset"
  where
  "example_dataset =
     \<lparr>calculate_stats = (\<lambda>w l row. Inr ()),
      ParsedStringScore = (\<lambda>sc w l.
        if list_all (\<lambda>c. c \<in> set ''0123456789- '') sc then Inr (split_blanks [] sc)
        else Inl BadFormattingException),
      sets = (\<lambda>sc. sc),
      CompletedMatch = (\<lambda>args. Inr args)\<rparr>"

definition example_row :: "string \<Rightarrow> string row" where
  "example_row sc =
     [''winner'' \<mapsto> ''A'', ''loser'' \<mapsto> ''B'', ''score'' \<mapsto> sc,
      ''start_date'' \<mapsto> ''2015-01-19'', ''tournament_name'' \<mapsto> ''Open'',
      ''round_number'' \<mapsto> ''1'', ''surface'' \<mapsto> ''Hard'']"

section \<open>Shortcut codes\<close>

lemma strip_one_char: "\<not> isspace c \<Longrightarrow> strip [c] = [c]"
  by (simp add: strip_def)

text \<open>
  Claim C1. Whatever the server, the returner, the \<open>server_won\<close> flag, the second code
  and the absent collaborators are: the first code \<open>S\<close> or \<open>R\<close> gives the sequence with
  \<open>not_coded\<close> set and no serve and no rally, \<open>P\<close> gives the one with
  \<open>server_lost_outright\<close> set, \<open>Q\<close> the one with \<open>server_won_outright\<close> set. The right-hand
  sides mention neither the second code nor the collaborators, so neither is consulted.
\<close>

theorem from_code_shortcuts:
  "from_code D srv ret won ''S'' second_code =
     Inr \<lparr>server = srv, returner = ret, server_won = won, rally = None, not_coded = True,
          first_serve = None, second_serve = None, server_lost_outright = False,
          server_won_outright = False\<rparr>
   \<and> from_code D srv ret won ''R'' second_code =
     Inr \<lparr>server = srv, returner = ret, server_won = won, rally = None, not_coded = True,
          first_serve = None, second_serve = None, server_lost_outright = False,
          server_won_outright = False\<rparr>
   \<and> from_code D srv ret won ''P'' second_code =
     Inr \<lparr>server = srv, returner = ret, server_won = won, rally = None, not_coded = False,
          first_serve = None, second_serve = None, server_lost_outright = True,
          server_won_outright = False\<rparr>
   \<and> from_code D srv ret won ''Q'' second_code =
     Inr \<lparr>server = srv, returner = ret, server_won = won, rally = None, not_coded = False,
          first_serve = None, second_serve = None, server_lost_outright = False,
          server_won_outright = True\<rparr>"
  by (simp add: from_code_def ShotSequence_def strip_def isspace_def)

section \<open>Stripping\<close>

lemma strip_spaces_around:
  assumes "\<forall>c\<in>set pre. isspace c" and "\<forall>c\<in>set post. isspace c"
  shows "strip (pre @ s @ post) = strip s"
proof -
  have a: "dropWhile isspace (pre @ s @ post) = dropWhile isspace (s @ post)"
    using assms(1) by (simp add: dropWhile_append2)
  show ?thesis
  proof (cases "dropWhile isspace s = []")
    case True
    then have "\<forall>c\<in>set s. isspace c" by (simp add: dropWhile_eq_Nil_conv)
    with assms(2) have "dropWhile isspace (s @ post) = []"
      by (auto simp: dropWhile_eq_Nil_conv)
    with True a show ?thesis by (simp only: strip_def)
  next
    case False
    then obtain x where x: "x \<in> set s" "\<not> isspace x"
      by (auto simp: dropWhile_eq_Nil_conv)
    then have "dropWhile isspace (s @ post) = dropWhile isspace s @ post"
      by (simp add: dropWhile_append1)
    with a have "dropWhile isspace (pre @ s @ post) = dropWhile isspace s @ post"
      by simp
    moreover have "dropWhile isspace (rev post @ rev (dropWhile isspace s))
        = dropWhile isspace (rev (dropWhile isspace s))"
      by (rule dropWhile_append2) (use assms(2) in simp)
    ultimately show ?thesis by (simp only: strip_def rev_append)
  qed
qed

lemma strip_idem: "strip (strip s) = strip s"
proof (cases "strip s = []")
  case True
  have "strip [] = []" by (simp add: strip_def)
  with True show ?thesis by simp
next
  case False
  define ys where "ys = dropWhile isspace s"
  have s: "strip s = rev (dropWhile isspace (rev ys))"
    by (simp add: strip_def ys_def)
  with False have ne: "dropWhile isspace (rev ys) \<noteq> []" by simp
  then obtain x where x: "x \<in> set (rev ys)" "\<not> isspace x"
    by (auto simp: dropWhile_eq_Nil_conv)
  then have "ys \<noteq> []" by auto
  then have "\<not> isspace (hd ys)" unfolding ys_def by (rule hd_dropWhile)
  moreover have "hd (strip s) = hd ys"
    using ne x \<open>ys \<noteq> []\<close> by (simp add: s hd_rev dropWhile_last last_rev)
  ultimately have "dropWhile isspace (strip s) = strip s"
    by (simp add: dropWhile_eq_self_iff)
  moreover have "dropWhile isspace (rev (strip s)) = rev (strip s)"
    by (simp add: s)
  ultimately show ?thesis by (simp add: strip_def[of "strip s"])
qed


section \<open>The two parts of \<open>from_code\<close>\<close>

lemma from_code_decode:
  assumes "first_serve_code (FaultEnum_values D) fc = Some code"
  shows "from_code D srv ret won fc sc = decode_serves D srv ret won code sc"
  using assms
  by (auto simp: first_serve_code_def from_code_def Let_def split: if_splits)

lemma from_code_no_decode:
  assumes "first_serve_code (FaultEnum_values D) fc = None"
  shows "from_code D srv ret won fc sc =
     (if strip fc \<in> set [''S'', ''R''] then
        ShotSequence srv ret won None None None True False False
      else if strip fc = ''P'' then ShotSequence srv ret won None None None False True False
      else if strip fc = ''Q'' then ShotSequence srv ret won None None None False False True
      else Inl (CodeParsingException (''Unknown single-character code: '' @ strip fc)))"
  using assms
  by (auto simp: first_serve_code_def from_code_def Let_def split: if_splits)


lemma ShotSequence_serve:
  "(ShotSequence srv ret won (Some s1) s2 r False False False
      :: 'e error + ('p, 's, 'r) shot_sequence) =
     Inr \<lparr>server = srv, returner = ret, server_won = won, rally = r, not_coded = False,
          first_serve = Some s1, second_serve = s2, server_lost_outright = False,
          server_won_outright = False\<rparr>"
  by (simp add: ShotSequence_def)

lemma decode_serves_in_play:
  assumes "Serve_from_code D code srv True = Inr (s1, rem1)" and "\<not> was_fault D s1"
  shows "decode_serves D srv ret won code sc =
     (if had_rally D s1 then
        (case Rally_from_code D rem1 srv ret of
           Inl e \<Rightarrow> Inl (Propagated e)
         | Inr r \<Rightarrow> ShotSequence srv ret won (Some s1) None (Some r) False False False)
      else ShotSequence srv ret won (Some s1) None None False False False)"
  using assms by (simp add: decode_serves_def)

lemma decode_serves_fault:
  assumes "Serve_from_code D code srv True = Inr (s1, rem1)" and "was_fault D s1"
  shows "decode_serves D srv ret won code sc =
     (case sc of
        None \<Rightarrow> Inl AttributeError
      | Some code2 \<Rightarrow>
          (case Serve_from_code D (strip code2) srv False of
             Inl e \<Rightarrow> Inl (Propagated e)
           | Inr (s2, rem2) \<Rightarrow>
               if had_rally D s2 then
                 (case Rally_from_code D rem2 srv ret of
                    Inl e \<Rightarrow> Inl (Propagated e)
                  | Inr r \<Rightarrow>
                      ShotSequence srv ret won (Some s1) (Some s2) (Some r) False False False)
               else ShotSequence srv ret won (Some s1) (Some s2) None False False False))"
  using assms by (simp add: decode_serves_def)

lemma decode_serves_raise:
  assumes "Serve_from_code D code srv True = Inl e"
  shows "decode_serves D srv ret won code sc = Inl (Propagated e)"
  using assms by (simp add: decode_serves_def)


lemma decode_serves_Inr:
  assumes "decode_serves D srv ret won code sc = Inr x"
  shows "\<exists>s1 rem1. Serve_from_code D code srv True = Inr (s1, rem1) \<and>
           first_serve x = Some s1 \<and>
           (if was_fault D s1 then
              (\<exists>code2 s2 rem2. sc = Some code2 \<and>
                 Serve_from_code D (strip code2) srv False = Inr (s2, rem2) \<and>
                 second_serve x = Some s2 \<and>
                 (if had_rally D s2
                  then \<exists>r. Rally_from_code D rem2 srv ret = Inr r \<and> rally x = Some r
                  else rally x = None))
            else second_serve x = None \<and>
              (if had_rally D s1
               then \<exists>r. Rally_from_code D rem1 srv ret = Inr r \<and> rally x = Some r
               else rally x = None))"
proof (cases "Serve_from_code D code srv True")
  case (Inl e)
  with assms show ?thesis by (simp add: decode_serves_raise)
next
  case (Inr p)
  obtain s1 rem1 where p: "p = (s1, rem1)" by (cases p)
  note first = Inr[unfolded p]
  show ?thesis
  proof (cases "was_fault D s1")
    case False
    note eq = assms[unfolded decode_serves_in_play[OF first False] ShotSequence_serve]
    show ?thesis
    proof (cases "had_rally D s1")
      case True
      with eq obtain r where "Rally_from_code D rem1 srv ret = Inr r"
        "x = \<lparr>server = srv, returner = ret, server_won = won, rally = Some r,
              not_coded = False, first_serve = Some s1, second_serve = None,
              server_lost_outright = False, server_won_outright = False\<rparr>"
        by (cases "Rally_from_code D rem1 srv ret") auto
      with first False True show ?thesis by simp
    next
      case nr: False
      with eq have
        "x = \<lparr>server = srv, returner = ret, server_won = won, rally = None,
              not_coded = False, first_serve = Some s1, second_serve = None,
              server_lost_outright = False, server_won_outright = False\<rparr>"
        by simp
      with first False nr show ?thesis by simp
    qed
  next
    case True
    note eq = assms[unfolded decode_serves_fault[OF first True] ShotSequence_serve]
    then obtain code2 where sc: "sc = Some code2" by (cases sc) auto
    from eq sc obtain q where q: "Serve_from_code D (strip code2) srv False = Inr q"
      by (cases "Serve_from_code D (strip code2) srv False") auto
    obtain s2 rem2 where q2: "q = (s2, rem2)" by (cases q)
    note second = q[unfolded q2]
    show ?thesis
    proof (cases "had_rally D s2")
      case hr: True
      with eq sc second obtain r where "Rally_from_code D rem2 srv ret = Inr r"
        "x = \<lparr>server = srv, returner = ret, server_won = won, rally = Some r,
              not_coded = False, first_serve = Some s1, second_serve = Some s2,
              server_lost_outright = False, server_won_outright = False\<rparr>"
        by (cases "Rally_from_code D rem2 srv ret") auto
      with first True sc second hr show ?thesis by simp
    next
      case nr: False
      with eq sc second have
        "x = \<lparr>server = srv, returner = ret, server_won = won, rally = None,
              not_coded = False, first_serve = Some s1, second_serve = Some s2,
              server_lost_outright = False, server_won_outright = False\<rparr>"
        by simp
      with first True sc second nr show ?thesis by simp
    qed
  qed
qed


lemma decode_serves_not_assert:
  "decode_serves D srv ret won code sc \<noteq> Inl AssertionError"
proof (cases "Serve_from_code D code srv True")
  case (Inl e)
  then show ?thesis by (simp add: decode_serves_raise)
next
  case (Inr p)
  obtain s1 rem1 where p: "p = (s1, rem1)" by (cases p)
  note first = Inr[unfolded p]
  show ?thesis
  proof (cases "was_fault D s1")
    case False
    show ?thesis
      unfolding decode_serves_in_play[OF first False] ShotSequence_serve
      by (simp split: sum.split)
  next
    case True
    show ?thesis
      unfolding decode_serves_fault[OF first True] ShotSequence_serve
      by (simp split: sum.split option.split prod.split)
  qed
qed

lemma decode_serves_shape:
  assumes "decode_serves D srv ret won code sc = Inr x"
  shows "shape_ok x"
proof -
  from decode_serves_Inr[OF assms] obtain s1 where "first_serve x = Some s1" by blast
  then show ?thesis by (simp add: shape_ok_def)
qed

section \<open>The second serve\<close>

text \<open>
  Claim C2. When \<open>from_code\<close> returns a sequence for a first code that, once stripped,
  is none of the shortcuts \<open>S\<close>, \<open>R\<close>, \<open>P\<close>, \<open>Q\<close>, the sequence holds the first serve
  that \<open>Serve.from_code\<close> decoded, and it holds a second serve if and only if that first
  serve was a fault. If it was a fault, the second code is there, it was stripped and
  decoded as a second serve, and the sequence holds that serve; if it was not, the
  second serve is \<open>None\<close>.
\<close>

theorem second_serve_iff_fault:
  assumes "from_code D srv ret won fc sc = Inr x"
    and "strip fc \<notin> set [''S'', ''R'', ''P'', ''Q'']"
  shows "\<exists>code s1 rem1.
           first_serve_code (FaultEnum_values D) fc = Some code \<and>
           Serve_from_code D code srv True = Inr (s1, rem1) \<and>
           first_serve x = Some s1 \<and>
           (second_serve x \<noteq> None \<longleftrightarrow> was_fault D s1) \<and>
           (was_fault D s1 \<longrightarrow>
              (\<exists>code2 s2 rem2. sc = Some code2 \<and>
                 Serve_from_code D (strip code2) srv False = Inr (s2, rem2) \<and>
                 second_serve x = Some s2))"
proof (cases "first_serve_code (FaultEnum_values D) fc")
  case None
  have "from_code D srv ret won fc sc =
      Inl (CodeParsingException (''Unknown single-character code: '' @ strip fc))"
    using assms(2) unfolding from_code_no_decode[OF None] by simp
  with assms(1) show ?thesis by simp
next
  case (Some code)
  with assms(1) have "decode_serves D srv ret won code sc = Inr x"
    by (simp add: from_code_decode)
  from decode_serves_Inr[OF this] obtain s1 rem1 where
    a: "Serve_from_code D code srv True = Inr (s1, rem1)" "first_serve x = Some s1"
    and b: "if was_fault D s1 then
              (\<exists>code2 s2 rem2. sc = Some code2 \<and>
                 Serve_from_code D (strip code2) srv False = Inr (s2, rem2) \<and>
                 second_serve x = Some s2 \<and>
                 (if had_rally D s2
                  then \<exists>r. Rally_from_code D rem2 srv ret = Inr r \<and> rally x = Some r
                  else rally x = None))
            else second_serve x = None \<and>
              (if had_rally D s1
               then \<exists>r. Rally_from_code D rem1 srv ret = Inr r \<and> rally x = Some r
               else rally x = None)"
    by blast
  show ?thesis
  proof (cases "was_fault D s1")
    case True
    with b obtain code2 s2 rem2 where "sc = Some code2"
      "Serve_from_code D (strip code2) srv False = Inr (s2, rem2)" "second_serve x = Some s2"
      by auto
    with a Some True show ?thesis by simp
  next
    case False
    with b have "second_serve x = None" by simp
    with a Some False show ?thesis by simp
  qed
qed

text \<open>
  The hypotheses of the theorem hold for the first code \<open>4n\<close>, a net
  fault, with a second code put in play.
\<close>

theorem second_serve_iff_fault_witness:
  "\<exists>x. from_code example_charting ''A'' ''B'' True ''4n'' (Some '' 6f1* '') = Inr x \<and>
     strip ''4n'' \<notin> set [''S'', ''R'', ''P'', ''Q''] \<and>
     second_serve x \<noteq> None \<and>
     (\<exists>s1. first_serve x = Some s1 \<and> was_fault example_charting s1)"
proof -
  have h1: "from_code example_charting ''A'' ''B'' True ''4n'' (Some '' 6f1* '') =
      Inr \<lparr>server = ''A'', returner = ''B'', server_won = True, rally = Some ''f1*'',
           not_coded = False,
           first_serve = Some \<lparr>serve_server = ''A'', is_first = True, raw_code = ''4n'',
             fault_kind = Some ''n'', direction = Some CHR ''4'', outcome = Fault\<rparr>,
           second_serve = Some \<lparr>serve_server = ''A'', is_first = False,
             raw_code = ''6f1*'', fault_kind = None, direction = Some CHR ''6'',
             outcome = ReturnInPlay\<rparr>,
           server_lost_outright = False, server_won_outright = False\<rparr>"
    by code_simp
  have h2: "strip ''4n'' \<notin> set [''S'', ''R'', ''P'', ''Q'']"
    by code_simp
  from second_serve_iff_fault[OF h1 h2] h1 h2 show ?thesis
    by auto
qed

section \<open>Unknown single characters\<close>

text \<open>
  Claim C4, as amended. When the first code, once stripped, is exactly one character
  that is none of the shortcuts \<open>S\<close>, \<open>R\<close>, \<open>P\<close>, \<open>Q\<close> and no value of \<open>FaultEnum\<close>,
  \<open>from_code\<close> raises \<open>CodeParsingException\<close> with the message ``Unknown
  single-character code: '' followed by that character, and returns no sequence. By
  \<open>strip_one_char\<close> this covers every first code of one character that is not
  whitespace.
\<close>

theorem unknown_single_character:
  assumes "length (strip fc) = 1"
    and "strip fc \<notin> set [''S'', ''R'', ''P'', ''Q'']"
    and "strip fc \<notin> set (FaultEnum_values D)"
  shows "from_code D srv ret won fc sc =
           Inl (CodeParsingException (''Unknown single-character code: '' @ strip fc))"
  using assms by (simp add: from_code_def)

text \<open>
  The hypotheses of the theorem hold for the letter \<open>k\<close> between
  blanks.
\<close>

theorem unknown_single_character_witness:
  "length (strip '' k '') = 1 \<and> strip '' k '' \<notin> set [''S'', ''R'', ''P'', ''Q''] \<and>
   strip '' k '' \<notin> set (FaultEnum_values example_charting) \<and>
   from_code example_charting ''A'' ''B'' True '' k '' None =
     Inl (CodeParsingException ''Unknown single-character code: k'')"
proof -
  have s: "strip '' k '' = ''k''" by code_simp
  have h1: "length (strip '' k '') = 1" by (simp add: s)
  have h2: "strip '' k '' \<notin> set [''S'', ''R'', ''P'', ''Q'']" by (simp add: s)
  have h3: "strip '' k '' \<notin> set (FaultEnum_values example_charting)"
    by (simp add: s example_charting_def spec_charting_def)
  from unknown_single_character[OF h1 h2 h3, of "''A''" "''B''" True None] h1 h2 h3
  show ?thesis by (simp add: s)
qed

text \<open>
  A first code that is one whitespace character is empty once stripped: the test on
  the length fails, nothing is raised by \<open>from_code\<close> itself, and the empty code goes to
  \<open>Serve.from_code\<close>, whatever the collaborators are.
\<close>

lemma from_code_blank:
  "from_code D srv ret won '' '' sc = decode_serves D srv ret won [] sc"
  by (simp add: from_code_def strip_def isspace_def)

text \<open>
  Claim C4 as stated fails at the first code of one blank: it has one character, which
  is neither a shortcut nor a fault letter, and \<open>from_code\<close> does not raise the
  \<open>CodeParsingException\<close> for an unknown single character. It hands the empty code to
  the serve decoder, whose failure (here the \<open>MissingRequiredServe\<close> of the specification)
  is what the caller sees.
\<close>

theorem blank_first_code_counterexample:
  "length '' '' = 1 \<and> '' '' \<notin> set [''S'', ''R'', ''P'', ''Q''] \<and>
   '' '' \<notin> set (FaultEnum_values example_charting) \<and>
   from_code example_charting ''A'' ''B'' True '' '' None =
     decode_serves example_charting ''A'' ''B'' True [] None \<and>
   from_code example_charting ''A'' ''B'' True '' '' None =
     Inl (Propagated MissingRequiredServe)"
proof -
  have "decode_serves example_charting ''A'' ''B'' True [] None =
      Inl (Propagated MissingRequiredServe)"
    by (simp add: decode_serves_def example_charting_def spec_charting_def
        Serve_from_code_spec_def)
  then show ?thesis
    by (simp add: from_code_blank example_charting_def spec_charting_def)
qed

section \<open>Bare fault letters\<close>

lemma from_code_fault_letter:
  assumes "[c] \<in> set (FaultEnum_values D)"
    and "[c] \<notin> set [''S'', ''R'', ''P'', ''Q'']"
    and "\<not> isspace c"
  shows "from_code D srv ret won [c] sc = decode_serves D srv ret won (''0'' @ [c]) sc"
  using assms by (simp add: from_code_def strip_one_char)

lemma Serve_from_code_spec_bare_fault:
  assumes "[c] \<in> set faults"
  shows "Serve_from_code_spec faults in_play (''0'' @ [c]) srv True =
     Inr (\<lparr>serve_server = srv, is_first = True, raw_code = ''0'' @ [c],
           fault_kind = Some [c], direction = None, outcome = Fault\<rparr>, [])"
  using assms by (simp add: Serve_from_code_spec_def isdigit_def)

text \<open>
  Claim C5. Let \<open>c\<close> be a fault letter that is not one of the shortcuts \<open>S\<close>, \<open>R\<close>, \<open>P\<close>,
  \<open>Q\<close> (and, being a letter, not whitespace). Given \<open>c\<close> alone as first code,
  \<open>from_code\<close> does not raise its \<open>CodeParsingException\<close>: it decodes the serves from
  the code \<open>0c\<close>. With the serve decoder of the specification, the first serve is then a
  fault of kind \<open>c\<close> with unknown direction, and the second code is required: without
  one the call fails with \<open>AttributeError\<close>, and with one the result is that of decoding
  the stripped second code as second serve (and the rally after it, if that serve had
  one), in a sequence that holds both serves.
\<close>

theorem bare_fault_letter:
  assumes "[c] \<in> set faults"
    and "[c] \<notin> set [''S'', ''R'', ''P'', ''Q'']"
    and "\<not> isspace c"
  shows "from_code (spec_charting faults in_play rally_decoder) srv ret won [c] sc =
           decode_serves (spec_charting faults in_play rally_decoder) srv ret won
             (''0'' @ [c]) sc
       \<and> Serve_from_code_spec faults in_play (''0'' @ [c]) srv True =
           Inr (\<lparr>serve_server = srv, is_first = True, raw_code = ''0'' @ [c],
                 fault_kind = Some [c], direction = None, outcome = Fault\<rparr>, [])
       \<and> from_code (spec_charting faults in_play rally_decoder) srv ret won [c] sc =
           (case sc of
              None \<Rightarrow> Inl AttributeError
            | Some second_code \<Rightarrow>
                (case Serve_from_code_spec faults in_play (strip second_code) srv False of
                   Inl e \<Rightarrow> Inl (Propagated e)
                 | Inr (s2, rem2) \<Rightarrow>
                     if had_rally_spec s2 then
                       (case rally_decoder rem2 srv ret of
                          Inl e \<Rightarrow> Inl (Propagated e)
                        | Inr r \<Rightarrow>
                            Inr \<lparr>server = srv, returner = ret, server_won = won,
                                 rally = Some r, not_coded = False,
                                 first_serve =
                                   Some \<lparr>serve_server = srv, is_first = True,
                                         raw_code = ''0'' @ [c], fault_kind = Some [c],
                                         direction = None, outcome = Fault\<rparr>,
                                 second_serve = Some s2, server_lost_outright = False,
                                 server_won_outright = False\<rparr>)
                     else
                       Inr \<lparr>server = srv, returner = ret, server_won = won,
                            rally = None, not_coded = False,
                            first_serve =
                              Some \<lparr>serve_server = srv, is_first = True,
                                    raw_code = ''0'' @ [c], fault_kind = Some [c],
                                    direction = None, outcome = Fault\<rparr>,
                            second_serve = Some s2, server_lost_outright = False,
                            server_won_outright = False\<rparr>))"
proof -
  let ?D = "spec_charting faults in_play rally_decoder"
  let ?s1 = "\<lparr>serve_server = srv, is_first = True, raw_code = ''0'' @ [c],
             fault_kind = Some [c], direction = None, outcome = Fault\<rparr>"
  have f: "[c] \<in> set (FaultEnum_values ?D)"
    using assms(1) by (simp add: spec_charting_def)
  have a: "from_code ?D srv ret won [c] sc = decode_serves ?D srv ret won (''0'' @ [c]) sc"
    by (rule from_code_fault_letter[OF f assms(2,3)])
  have b: "Serve_from_code_spec faults in_play (''0'' @ [c]) srv True = Inr (?s1, [])"
    by (rule Serve_from_code_spec_bare_fault[OF assms(1)])
  have first: "Serve_from_code ?D (''0'' @ [c]) srv True = Inr (?s1, [])"
    using b by (simp add: spec_charting_def)
  have wf: "was_fault ?D ?s1"
    by (simp add: spec_charting_def was_fault_spec_def)
  have c: "decode_serves ?D srv ret won (''0'' @ [c]) sc =
      (case sc of
         None \<Rightarrow> Inl AttributeError
       | Some code2 \<Rightarrow>
           (case Serve_from_code ?D (strip code2) srv False of
              Inl e \<Rightarrow> Inl (Propagated e)
            | Inr (s2, rem2) \<Rightarrow>
                if had_rally ?D s2 then
                  (case Rally_from_code ?D rem2 srv ret of
                     Inl e \<Rightarrow> Inl (Propagated e)
                   | Inr r \<Rightarrow>
                       ShotSequence srv ret won (Some ?s1) (Some s2) (Some r)
                         False False False)
                else ShotSequence srv ret won (Some ?s1) (Some s2) None False False False))"
    by (rule decode_serves_fault[OF first wf])
  have sel: "Serve_from_code ?D = Serve_from_code_spec faults in_play"
    "had_rally ?D = had_rally_spec" "Rally_from_code ?D = rally_decoder"
    by (simp_all add: spec_charting_def)
  show ?thesis
    unfolding a c sel ShotSequence_serve using b by simp
qed

text \<open>
  The hypotheses of the theorem hold for the letter \<open>n\<close>: without a second code
  the decoding fails, with the ace \<open>6*\<close> as second code it returns both serves.
\<close>

theorem bare_fault_letter_witness:
  "''n'' \<in> set [''n'', ''w'', ''d'', ''x'', ''g'', ''e''] \<and>
   ''n'' \<notin> set [''S'', ''R'', ''P'', ''Q''] \<and> \<not> isspace CHR ''n'' \<and>
   from_code example_charting ''A'' ''B'' True ''n'' None = Inl AttributeError \<and>
   from_code example_charting ''A'' ''B'' True ''n'' (Some ''6*'') =
     Inr \<lparr>server = ''A'', returner = ''B'', server_won = True, rally = None,
          not_coded = False,
          first_serve = Some \<lparr>serve_server = ''A'', is_first = True, raw_code = ''0n'',
            fault_kind = Some ''n'', direction = None, outcome = Fault\<rparr>,
          second_serve = Some \<lparr>serve_server = ''A'', is_first = False, raw_code = ''6*'',
            fault_kind = None, direction = Some CHR ''6'', outcome = Ace\<rparr>,
          server_lost_outright = False, server_won_outright = False\<rparr>"
proof -
  have h1: "[CHR ''n''] \<in> set [''n'', ''w'', ''d'', ''x'', ''g'', ''e'']" by simp
  have h2: "[CHR ''n''] \<notin> set [''S'', ''R'', ''P'', ''Q'']" by simp
  have h3: "\<not> isspace CHR ''n''" by (simp add: isspace_def)
  have s2: "Serve_from_code_spec [''n'', ''w'', ''d'', ''x'', ''g'', ''e''] example_in_play
      (strip ''6*'') ''A'' False =
      Inr (\<lparr>serve_server = ''A'', is_first = False, raw_code = ''6*'',
            fault_kind = None, direction = Some CHR ''6'', outcome = Ace\<rparr>, ''*'')"
    by code_simp
  note t = bare_fault_letter[OF h1 h2 h3, of example_in_play "\<lambda>code srv ret. Inr code"
      "''A''" "''B''" True, THEN conjunct2, THEN conjunct2]
  from t[of None] have a:
    "from_code example_charting ''A'' ''B'' True ''n'' None = Inl AttributeError"
    by (simp add: example_charting_def)
  have b:
    "from_code example_charting ''A'' ''B'' True ''n'' (Some ''6*'') =
     Inr \<lparr>server = ''A'', returner = ''B'', server_won = True, rally = None,
          not_coded = False,
          first_serve = Some \<lparr>serve_server = ''A'', is_first = True, raw_code = ''0n'',
            fault_kind = Some ''n'', direction = None, outcome = Fault\<rparr>,
          second_serve = Some \<lparr>serve_server = ''A'', is_first = False, raw_code = ''6*'',
            fault_kind = None, direction = Some CHR ''6'', outcome = Ace\<rparr>,
          server_lost_outright = False, server_won_outright = False\<rparr>"
    using t[of "Some ''6*''"] s2
    by (simp add: example_charting_def had_rally_spec_def)
  from a b h3 show ?thesis by simp
qed

section \<open>The construction-time invariant\<close>

text \<open>
  Claim C6. Every sequence the constructor returns satisfies the invariant: it is not
  coded, or lost outright, or won outright, or it has a first serve. \<open>from_code\<close> never
  fails with the \<open>AssertionError\<close> of the constructor, whatever its arguments and the
  collaborators are, and every sequence it returns satisfies the invariant.
\<close>

theorem shape_invariant:
  "((ShotSequence srv ret won fs ss r nc lo wo :: 'e error + ('p, 's, 'r) shot_sequence)
       = Inr x \<longrightarrow> shape_ok x)
   \<and> from_code D srv' ret' won' fc sc \<noteq> Inl AssertionError
   \<and> (from_code D srv' ret' won' fc sc = Inr y \<longrightarrow> shape_ok y)"
proof (intro conjI impI)
  assume "(ShotSequence srv ret won fs ss r nc lo wo :: 'e error + ('p, 's, 'r) shot_sequence)
       = Inr x"
  then show "shape_ok x"
    by (auto simp: ShotSequence_def shape_ok_def split: if_splits)
next
  show "from_code D srv' ret' won' fc sc \<noteq> Inl AssertionError"
  proof (cases "first_serve_code (FaultEnum_values D) fc")
    case None
    show ?thesis unfolding from_code_no_decode[OF None]
      by (simp add: ShotSequence_def)
  next
    case (Some code)
    show ?thesis unfolding from_code_decode[OF Some]
      by (rule decode_serves_not_assert)
  qed
next
  assume a: "from_code D srv' ret' won' fc sc = Inr y"
  show "shape_ok y"
  proof (cases "first_serve_code (FaultEnum_values D) fc")
    case None
    from a show ?thesis unfolding from_code_no_decode[OF None]
      by (auto simp: ShotSequence_def shape_ok_def split: if_splits)
  next
    case (Some code)
    from a show ?thesis unfolding from_code_decode[OF Some]
      by (rule decode_serves_shape)
  qed
qed

text \<open>
  The implications of the theorem at the shortcut \<open>S\<close>, built by the constructor,
  and at the ace \<open>6*\<close>, decoded by \<open>from_code\<close>.
\<close>

theorem shape_invariant_witness:
  "(ShotSequence ''A'' ''B'' True None None None True False False
      :: unit error + (string, string serve, string) shot_sequence) =
     Inr \<lparr>server = ''A'', returner = ''B'', server_won = True, rally = None,
          not_coded = True, first_serve = None, second_serve = None,
          server_lost_outright = False, server_won_outright = False\<rparr> \<and>
   shape_ok \<lparr>server = ''A'', returner = ''B'', server_won = True,
     rally = None :: string option,
     not_coded = True, first_serve = None :: string serve option, second_serve = None,
     server_lost_outright = False, server_won_outright = False\<rparr> \<and>
   from_code example_charting ''A'' ''B'' True ''6*'' None =
     Inr \<lparr>server = ''A'', returner = ''B'', server_won = True, rally = None,
          not_coded = False,
          first_serve = Some \<lparr>serve_server = ''A'', is_first = True, raw_code = ''6*'',
            fault_kind = None, direction = Some CHR ''6'', outcome = Ace\<rparr>,
          second_serve = None, server_lost_outright = False,
          server_won_outright = False\<rparr> \<and>
   shape_ok \<lparr>server = ''A'', returner = ''B'', server_won = True,
     rally = None :: string option, not_coded = False,
     first_serve = Some \<lparr>serve_server = ''A'', is_first = True, raw_code = ''6*'',
       fault_kind = None, direction = Some CHR ''6'', outcome = Ace\<rparr>,
     second_serve = None, server_lost_outright = False, server_won_outright = False\<rparr>"
proof -
  have h1: "(ShotSequence ''A'' ''B'' True None None None True False False
      :: unit error + (string, string serve, string) shot_sequence) =
     Inr \<lparr>server = ''A'', returner = ''B'', server_won = True, rally = None,
          not_coded = True, first_serve = None, second_serve = None,
          server_lost_outright = False, server_won_outright = False\<rparr>"
    by (simp add: ShotSequence_def)
  have h2: "from_code example_charting ''A'' ''B'' True ''6*'' None =
     Inr \<lparr>server = ''A'', returner = ''B'', server_won = True, rally = None,
          not_coded = False,
          first_serve = Some \<lparr>serve_server = ''A'', is_first = True, raw_code = ''6*'',
            fault_kind = None, direction = Some CHR ''6'', outcome = Ace\<rparr>,
          second_serve = None, server_lost_outright = False,
          server_won_outright = False\<rparr>"
    by code_simp
  note t = shape_invariant[where D = example_charting and fc = "''6*''" and sc = None
      and srv' = "''A''" and ret' = "''B''" and won' = True]
  from t[THEN conjunct1, rule_format, OF h1] t[THEN conjunct2, THEN conjunct2, rule_format, OF h2]
    h1 h2
  show ?thesis by simp
qed

section \<open>The second code of a point whose first serve is in play\<close>

text \<open>
  Claim C8. When the first serve that \<open>from_code\<close> decodes is not a fault, the result
  is the same for any two second codes, \<open>None\<close> and strings that decode to nothing
  included, and a sequence that is returned has no second serve.
\<close>

theorem second_code_unused:
  assumes "first_serve_code (FaultEnum_values D) fc = Some code"
    and "Serve_from_code D code srv True = Inr (s1, rem1)"
    and "\<not> was_fault D s1"
  shows "from_code D srv ret won fc sc = from_code D srv ret won fc sc'
       \<and> (\<forall>x. from_code D srv ret won fc sc = Inr x \<longrightarrow> second_serve x = None)"
proof -
  have a: "from_code D srv ret won fc sc = from_code D srv ret won fc sc'"
    unfolding from_code_decode[OF assms(1)] decode_serves_in_play[OF assms(2,3)] ..
  have "second_serve x = None" if "from_code D srv ret won fc sc = Inr x" for x
  proof -
    from that have "decode_serves D srv ret won code sc = Inr x"
      by (simp add: from_code_decode[OF assms(1)])
    from decode_serves_Inr[OF this] assms(2,3) show ?thesis by auto
  qed
  with a show ?thesis by blast
qed

text \<open>
  The hypotheses of the theorem hold for the first code \<open>6f1*\<close>, a serve
  returned in play.
\<close>

theorem second_code_unused_witness:
  "first_serve_code (FaultEnum_values example_charting) ''6f1*'' = Some ''6f1*'' \<and>
   Serve_from_code example_charting ''6f1*'' ''A'' True =
     Inr (\<lparr>serve_server = ''A'', is_first = True, raw_code = ''6f1*'', fault_kind = None,
           direction = Some CHR ''6'', outcome = ReturnInPlay\<rparr>, ''f1*'') \<and>
   \<not> was_fault example_charting
       \<lparr>serve_server = ''A'', is_first = True, raw_code = ''6f1*'', fault_kind = None,
        direction = Some CHR ''6'', outcome = ReturnInPlay\<rparr> \<and>
   from_code example_charting ''A'' ''B'' True ''6f1*'' None =
     from_code example_charting ''A'' ''B'' True ''6f1*'' (Some ''zz'')"
proof -
  have h1: "first_serve_code (FaultEnum_values example_charting) ''6f1*'' = Some ''6f1*''"
    by code_simp
  have h2: "Serve_from_code example_charting ''6f1*'' ''A'' True =
     Inr (\<lparr>serve_server = ''A'', is_first = True, raw_code = ''6f1*'', fault_kind = None,
           direction = Some CHR ''6'', outcome = ReturnInPlay\<rparr>, ''f1*'')"
    by code_simp
  have h3: "\<not> was_fault example_charting
       \<lparr>serve_server = ''A'', is_first = True, raw_code = ''6f1*'', fault_kind = None,
        direction = Some CHR ''6'', outcome = ReturnInPlay\<rparr>"
    by code_simp
  from second_code_unused[OF h1 h2 h3, of "''B''" True None "Some ''zz''"] h1 h2 h3
  show ?thesis by blast
qed

section \<open>Whitespace around the codes\<close>

lemma from_code_strip_first:
  assumes "strip fc' = strip fc"
  shows "from_code D srv ret won fc' sc = from_code D srv ret won fc sc"
  using assms by (simp add: from_code_def)

lemma decode_serves_strip_second:
  assumes "strip c2' = strip c2"
  shows "decode_serves D srv ret won code (Some c2') = decode_serves D srv ret won code (Some c2)"
proof (cases "Serve_from_code D code srv True")
  case (Inl e)
  then show ?thesis by (simp add: decode_serves_raise)
next
  case (Inr p)
  obtain s1 rem1 where p: "p = (s1, rem1)" by (cases p)
  note first = Inr[unfolded p]
  show ?thesis
  proof (cases "was_fault D s1")
    case True
    show ?thesis unfolding decode_serves_fault[OF first True] by (simp add: assms)
  next
    case False
    show ?thesis unfolding decode_serves_in_play[OF first False] ..
  qed
qed

lemma from_code_strip_second:
  assumes "strip c2' = strip c2"
  shows "from_code D srv ret won fc (Some c2') = from_code D srv ret won fc (Some c2)"
proof (cases "first_serve_code (FaultEnum_values D) fc")
  case None
  show ?thesis unfolding from_code_no_decode[OF None] ..
next
  case (Some code)
  show ?thesis unfolding from_code_decode[OF Some]
    by (rule decode_serves_strip_second[OF assms])
qed

text \<open>
  Claim C9. Whitespace added before and after the first code does not change the
  result of \<open>from_code\<close>, which is also the result for the stripped first code; and the
  same holds for whitespace added around the second code, on every branch and so on
  the branch where the first serve was a fault.
\<close>

theorem whitespace_invariance:
  assumes "\<forall>c\<in>set pre. isspace c" and "\<forall>c\<in>set post. isspace c"
  shows "from_code D srv ret won (pre @ fc @ post) sc = from_code D srv ret won fc sc
       \<and> from_code D srv ret won (pre @ fc @ post) sc = from_code D srv ret won (strip fc) sc
       \<and> from_code D srv ret won fc (Some (pre @ c2 @ post)) =
           from_code D srv ret won fc (Some c2)
       \<and> from_code D srv ret won fc (Some (pre @ c2 @ post)) =
           from_code D srv ret won fc (Some (strip c2))"
proof -
  have a: "strip (pre @ fc @ post) = strip fc" "strip (pre @ c2 @ post) = strip c2"
    using assms by (simp_all add: strip_spaces_around)
  have b: "strip (pre @ fc @ post) = strip (strip fc)"
    "strip (pre @ c2 @ post) = strip (strip c2)"
    using a by (simp_all add: strip_idem)
  show ?thesis
  proof (intro conjI)
    show "from_code D srv ret won (pre @ fc @ post) sc = from_code D srv ret won fc sc"
      by (rule from_code_strip_first[OF a(1)])
    show "from_code D srv ret won (pre @ fc @ post) sc =
        from_code D srv ret won (strip fc) sc"
      by (rule from_code_strip_first[OF b(1)])
    show "from_code D srv ret won fc (Some (pre @ c2 @ post)) =
        from_code D srv ret won fc (Some c2)"
      by (rule from_code_strip_second[OF a(2)])
    show "from_code D srv ret won fc (Some (pre @ c2 @ post)) =
        from_code D srv ret won fc (Some (strip c2))"
      by (rule from_code_strip_second[OF b(2)])
  qed
qed

text \<open>
  The hypotheses of the theorem hold for a blank in front and a tab and a
  line feed behind.
\<close>

theorem whitespace_invariance_witness:
  "isspace CHR '' '' \<and> isspace (CHR 0x09) \<and> isspace (CHR 0x0A) \<and>
   from_code example_charting ''A'' ''B'' True ('' '' @ ''4n'' @ [CHR 0x09, CHR 0x0A])
       (Some ''6*'') =
     from_code example_charting ''A'' ''B'' True ''4n'' (Some ''6*'') \<and>
   from_code example_charting ''A'' ''B'' True ''4n''
       (Some ('' '' @ ''6*'' @ [CHR 0x09, CHR 0x0A])) =
     from_code example_charting ''A'' ''B'' True ''4n'' (Some ''6*'')"
proof -
  have h1: "\<forall>c\<in>set '' ''. isspace c" by (simp add: isspace_def)
  have h2: "\<forall>c\<in>set [CHR 0x09, CHR 0x0A]. isspace c" by (simp add: isspace_def)
  from whitespace_invariance[OF h1 h2, of example_charting "''A''" "''B''" True "''4n''"
      "Some ''6*''" "''6*''"]
  show ?thesis by (simp add: isspace_def)
qed

section \<open>The rally\<close>

text \<open>
  A returned sequence with a first serve holds a rally if and only if its terminating
  serve (the second serve if there is one, else the first) had a rally. What a rally
  holds is decided by \<open>Rally.from_code\<close>, which is not part of the sources at hand.
\<close>

lemma rally_iff_had_rally:
  assumes "from_code D srv ret won fc sc = Inr x" and "first_serve x = Some s1"
  shows "rally x \<noteq> None \<longleftrightarrow>
           had_rally D (case second_serve x of None \<Rightarrow> s1 | Some s2 \<Rightarrow> s2)"
proof (cases "first_serve_code (FaultEnum_values D) fc")
  case None
  from assms show ?thesis unfolding from_code_no_decode[OF None]
    by (auto simp: ShotSequence_def split: if_splits)
next
  case (Some code)
  from assms(1) have "decode_serves D srv ret won code sc = Inr x"
    by (simp add: from_code_decode[OF Some])
  from decode_serves_Inr[OF this] assms(2) obtain rem1 where
    b: "if was_fault D s1 then
              (\<exists>code2 s2 rem2. sc = Some code2 \<and>
                 Serve_from_code D (strip code2) srv False = Inr (s2, rem2) \<and>
                 second_serve x = Some s2 \<and>
                 (if had_rally D s2
                  then \<exists>r. Rally_from_code D rem2 srv ret = Inr r \<and> rally x = Some r
                  else rally x = None))
            else second_serve x = None \<and>
              (if had_rally D s1
               then \<exists>r. Rally_from_code D rem1 srv ret = Inr r \<and> rally x = Some r
               else rally x = None)"
    by auto
  show ?thesis
  proof (cases "was_fault D s1")
    case True
    with b obtain s2 where "second_serve x = Some s2"
      "if had_rally D s2 then \<exists>r. rally x = Some r else rally x = None"
      by (auto split: if_splits)
    then show ?thesis by (auto split: if_splits)
  next
    case False
    with b have "second_serve x = None"
      "if had_rally D s1 then \<exists>r. rally x = Some r else rally x = None"
      by (auto split: if_splits)
    then show ?thesis by (auto split: if_splits)
  qed
qed

section \<open>Rows that yield no match\<close>

lemma turn_into_matches_skip:
  assumes "loop_body D row = Continue"
  shows "turn_into_matches D (pre @ row # post) = turn_into_matches D (pre @ post)"
proof (induction pre)
  case Nil
  show ?case using assms by simp
next
  case (Cons r pre)
  then show ?case by (simp split: step.split)
qed

lemma loop_body_bad_score:
  assumes "row ''winner'' = Some w" and "row ''loser'' = Some l"
    and "calculate_stats D w l row = Inr st" and "row ''score'' = Some s"
    and "ParsedStringScore D s w l = Inl BadFormattingException"
  shows "loop_body D row = Continue"
  using assms by (simp add: loop_body_def)

lemma loop_body_few_sets:
  assumes "row ''winner'' = Some w" and "row ''loser'' = Some l"
    and "calculate_stats D w l row = Inr st" and "row ''score'' = Some s"
    and "ParsedStringScore D s w l = Inr sc" and "length (sets D sc) < 2"
  shows "loop_body D row = Continue"
  using assms by (simp add: loop_body_def)

lemma loop_body_Yield:
  assumes "loop_body D row = Yield m"
  shows "\<exists>w l s sc. row ''winner'' = Some w \<and> row ''loser'' = Some l \<and>
           row ''score'' = Some s \<and> ParsedStringScore D s w l = Inr sc \<and>
           2 \<le> length (sets D sc)"
proof -
  obtain w where w: "row ''winner'' = Some w"
    using assms by (cases "row ''winner''") (simp_all add: loop_body_def)
  obtain l where l: "row ''loser'' = Some l"
    using assms w by (cases "row ''loser''") (simp_all add: loop_body_def)
  obtain st where st: "calculate_stats D w l row = Inr st"
    using assms w l by (cases "calculate_stats D w l row") (simp_all add: loop_body_def)
  obtain s where s: "row ''score'' = Some s"
    using assms w l st by (cases "row ''score''") (simp_all add: loop_body_def)
  obtain sc where sc: "ParsedStringScore D s w l = Inr sc"
  proof (cases "ParsedStringScore D s w l")
    case (Inl e)
    with assms w l st s have False by (cases e) (simp_all add: loop_body_def)
    then show ?thesis ..
  next
    case (Inr sc)
    then show ?thesis by (rule that)
  qed
  have "2 \<le> length (sets D sc)"
  proof (rule ccontr)
    assume "\<not> 2 \<le> length (sets D sc)"
    then have "length (sets D sc) < 2" by simp
    from loop_body_few_sets[OF w l st s sc this] assms show False by simp
  qed
  with w l s sc show ?thesis by blast
qed

lemma turn_into_matches_yielded:
  assumes "m \<in> set (fst (turn_into_matches D records))"
  shows "\<exists>row\<in>set records. loop_body D row = Yield m"
  using assms
proof (induction records)
  case Nil
  then show ?case by simp
next
  case (Cons r records)
  show ?case
  proof (cases "loop_body D r")
    case Continue
    with Cons show ?thesis by simp
  next
    case (Yield m')
    with Cons show ?thesis by (auto split: prod.splits)
  next
    case (Raise e)
    with Cons show ?thesis by simp
  qed
qed

text \<open>
  Claim C7. Take any records \<open>pre\<close>, a row, and any records \<open>post\<close>. If the loop gets
  as far as parsing the score of the row (the row has a winner, a loser and a score,
  and \<open>calculate_stats\<close> returned) and \<open>ParsedStringScore\<close> raises
  \<open>BadFormattingException\<close>, then the body of the loop goes on with \<open>continue\<close>, and
  the generator yields the same matches and ends the same way as on the records
  without that row: the row is skipped and the rows after it are processed.
\<close>

theorem bad_score_row_skipped:
  assumes "row ''winner'' = Some w" and "row ''loser'' = Some l"
    and "calculate_stats D w l row = Inr st" and "row ''score'' = Some s"
    and "ParsedStringScore D s w l = Inl BadFormattingException"
  shows "loop_body D row = Continue
       \<and> turn_into_matches D (pre @ row # post) = turn_into_matches D (pre @ post)"
proof -
  have "loop_body D row = Continue"
    by (rule loop_body_bad_score[OF assms])
  then show ?thesis by (simp add: turn_into_matches_skip)
qed

text \<open>The example rows and the example collaborators, evaluated.\<close>

lemma example_row_cells:
  "example_row s ''winner'' = Some ''A''" "example_row s ''loser'' = Some ''B''"
  "example_row s ''score'' = Some s" "example_row s ''start_date'' = Some ''2015-01-19''"
  "example_row s ''tournament_name'' = Some ''Open''"
  "example_row s ''round_number'' = Some ''1''" "example_row s ''surface'' = Some ''Hard''"
  "''odds_winner'' \<notin> dom (example_row s)"
  by (simp_all add: example_row_def)

lemma example_dataset_fields:
  "calculate_stats example_dataset w l row = Inr ()"
  "ParsedStringScore example_dataset s w l =
     (if list_all (\<lambda>c. c \<in> set ''0123456789- '') s then Inr (split_blanks [] s)
      else Inl BadFormattingException)"
  "sets example_dataset sc = sc"
  "CompletedMatch example_dataset args = Inr args"
  by (simp_all add: example_dataset_def)

lemma example_loop_body:
  "loop_body example_dataset (example_row s) =
     (if list_all (\<lambda>c. c \<in> set ''0123456789- '') s then
        if length (split_blanks [] s) < 2 then Continue
        else Yield \<lparr>p1 = ''A'', p2 = ''B'', date = ''2015-01-19'', winner = ''A'',
               stats = (), tournament_name = ''Open'', surface = Some ''Hard'',
               tournament_round = ''1'', odds = None, score = split_blanks [] s\<rparr>
      else Continue)"
  by (simp add: loop_body_def example_row_cells example_dataset_fields)

text \<open>
  The hypotheses of the theorem hold for a walkover between two rows
  with well-formed scores: two matches are yielded.
\<close>

theorem bad_score_row_skipped_witness:
  "example_row ''W/O'' ''winner'' = Some ''A'' \<and> example_row ''W/O'' ''loser'' = Some ''B'' \<and>
   calculate_stats example_dataset ''A'' ''B'' (example_row ''W/O'') = Inr () \<and>
   example_row ''W/O'' ''score'' = Some ''W/O'' \<and>
   ParsedStringScore example_dataset ''W/O'' ''A'' ''B'' = Inl BadFormattingException \<and>
   turn_into_matches example_dataset
     ([example_row ''6-4 6-3''] @ example_row ''W/O'' # [example_row ''7-6 6-0'']) =
     ([\<lparr>p1 = ''A'', p2 = ''B'', date = ''2015-01-19'', winner = ''A'', stats = (),
        tournament_name = ''Open'', surface = Some ''Hard'', tournament_round = ''1'',
        odds = None, score = [''6-4'', ''6-3'']\<rparr>,
       \<lparr>p1 = ''A'', p2 = ''B'', date = ''2015-01-19'', winner = ''A'', stats = (),
        tournament_name = ''Open'', surface = Some ''Hard'', tournament_round = ''1'',
        odds = None, score = [''7-6'', ''6-0'']\<rparr>], None)"
proof -
  have h1: "example_row ''W/O'' ''winner'' = Some ''A''"
    and h2: "example_row ''W/O'' ''loser'' = Some ''B''"
    and h4: "example_row ''W/O'' ''score'' = Some ''W/O''"
    by (simp_all add: example_row_cells)
  have h3: "calculate_stats example_dataset ''A'' ''B'' (example_row ''W/O'') = Inr ()"
    by (simp add: example_dataset_fields)
  have h5: "ParsedStringScore example_dataset ''W/O'' ''A'' ''B'' = Inl BadFormattingException"
    by (simp add: example_dataset_fields)
  have e: "turn_into_matches example_dataset
       ([example_row ''6-4 6-3''] @ [example_row ''7-6 6-0'']) =
     ([\<lparr>p1 = ''A'', p2 = ''B'', date = ''2015-01-19'', winner = ''A'', stats = (),
        tournament_name = ''Open'', surface = Some ''Hard'', tournament_round = ''1'',
        odds = None, score = [''6-4'', ''6-3'']\<rparr>,
       \<lparr>p1 = ''A'', p2 = ''B'', date = ''2015-01-19'', winner = ''A'', stats = (),
        tournament_name = ''Open'', surface = Some ''Hard'', tournament_round = ''1'',
        odds = None, score = [''7-6'', ''6-0'']\<rparr>], None)"
    by (simp add: example_loop_body)
  note t = bad_score_row_skipped[OF h1 h2 h3 h4 h5, of "[example_row ''6-4 6-3'']"
      "[example_row ''7-6 6-0'']", THEN conjunct2]
  show ?thesis by (intro conjI h1 h2 h3 h4 h5) (simp only: t e)
qed

text \<open>
  Claim C10. Every match that \<open>turn_into_matches\<close> yields comes from a row whose score
  was parsed into at least two sets. And if the loop gets as far as parsing the score
  of a row and the parsed score has fewer than two sets, the body of the loop goes on
  with \<open>continue\<close>: nothing is raised, no match is yielded for the row, and the
  generator behaves as on the records without that row.
\<close>

theorem fewer_than_two_sets_skipped:
  "(m \<in> set (fst (turn_into_matches D records)) \<longrightarrow>
      (\<exists>row\<in>set records. \<exists>w l s sc.
          loop_body D row = Yield m \<and> row ''winner'' = Some w \<and> row ''loser'' = Some l \<and>
          row ''score'' = Some s \<and> ParsedStringScore D s w l = Inr sc \<and>
          2 \<le> length (sets D sc)))
   \<and> (row ''winner'' = Some w \<and> row ''loser'' = Some l \<and>
        calculate_stats D w l row = Inr st \<and> row ''score'' = Some s \<and>
        ParsedStringScore D s w l = Inr sc \<and> length (sets D sc) < 2 \<longrightarrow>
      loop_body D row = Continue \<and>
      turn_into_matches D (pre @ row # post) = turn_into_matches D (pre @ post))"
proof (intro conjI impI)
  assume m: "m \<in> set (fst (turn_into_matches D records))"
  from turn_into_matches_yielded[OF m]
  obtain r where r: "r \<in> set records" "loop_body D r = Yield m" ..
  from loop_body_Yield[OF r(2)] r
  show "\<exists>row\<in>set records. \<exists>w l s sc.
          loop_body D row = Yield m \<and> row ''winner'' = Some w \<and> row ''loser'' = Some l \<and>
          row ''score'' = Some s \<and> ParsedStringScore D s w l = Inr sc \<and>
          2 \<le> length (sets D sc)"
    by blast
next
  assume a: "row ''winner'' = Some w \<and> row ''loser'' = Some l \<and>
        calculate_stats D w l row = Inr st \<and> row ''score'' = Some s \<and>
        ParsedStringScore D s w l = Inr sc \<and> length (sets D sc) < 2"
  then show c: "loop_body D row = Continue"
    by (intro loop_body_few_sets[of row w l D st s sc]) simp_all
  show "turn_into_matches D (pre @ row # post) = turn_into_matches D (pre @ post)"
    by (rule turn_into_matches_skip[OF c])
qed

text \<open>
  Both implications of the theorem at concrete rows: a row with the
  single set \<open>6-4\<close> is skipped, and the match that is yielded comes from the row with
  two sets.
\<close>

theorem fewer_than_two_sets_skipped_witness:
  "example_row ''6-4'' ''winner'' = Some ''A'' \<and> example_row ''6-4'' ''loser'' = Some ''B'' \<and>
   calculate_stats example_dataset ''A'' ''B'' (example_row ''6-4'') = Inr () \<and>
   example_row ''6-4'' ''score'' = Some ''6-4'' \<and>
   ParsedStringScore example_dataset ''6-4'' ''A'' ''B'' = Inr [''6-4''] \<and>
   length (sets example_dataset [''6-4'']) < 2 \<and>
   loop_body example_dataset (example_row ''6-4'') = Continue \<and>
   turn_into_matches example_dataset ([] @ example_row ''6-4'' # [example_row ''6-4 6-3'']) =
     ([\<lparr>p1 = ''A'', p2 = ''B'', date = ''2015-01-19'', winner = ''A'', stats = (),
        tournament_name = ''Open'', surface = Some ''Hard'', tournament_round = ''1'',
        odds = None, score = [''6-4'', ''6-3'']\<rparr>], None) \<and>
   \<lparr>p1 = ''A'', p2 = ''B'', date = ''2015-01-19'', winner = ''A'', stats = (),
        tournament_name = ''Open'', surface = Some ''Hard'', tournament_round = ''1'',
        odds = None, score = [''6-4'', ''6-3'']\<rparr> \<in> set (fst (turn_into_matches example_dataset [example_row ''6-4 6-3''])) \<and>
   (\<exists>row\<in>set [example_row ''6-4 6-3'']. \<exists>w l s sc.
      loop_body example_dataset row = Yield \<lparr>p1 = ''A'', p2 = ''B'', date = ''2015-01-19'', winner = ''A'', stats = (),
        tournament_name = ''Open'', surface = Some ''Hard'', tournament_round = ''1'',
        odds = None, score = [''6-4'', ''6-3'']\<rparr> \<and>
      row ''winner'' = Some w \<and> row ''loser'' = Some l \<and> row ''score'' = Some s \<and>
      ParsedStringScore example_dataset s w l = Inr sc \<and>
      2 \<le> length (sets example_dataset sc))"
proof -
  have h1: "example_row ''6-4'' ''winner'' = Some ''A''"
    and h2: "example_row ''6-4'' ''loser'' = Some ''B''"
    and h4: "example_row ''6-4'' ''score'' = Some ''6-4''"
    by (simp_all add: example_row_cells)
  have h3: "calculate_stats example_dataset ''A'' ''B'' (example_row ''6-4'') = Inr ()"
    by (simp add: example_dataset_fields)
  have h5: "ParsedStringScore example_dataset ''6-4'' ''A'' ''B'' = Inr [''6-4'']"
    by (simp add: example_dataset_fields)
  have h6: "length (sets example_dataset [''6-4'']) < 2"
    by (simp add: example_dataset_fields)
  have e: "turn_into_matches example_dataset ([] @ [example_row ''6-4 6-3'']) = ([\<lparr>p1 = ''A'', p2 = ''B'', date = ''2015-01-19'', winner = ''A'', stats = (),
        tournament_name = ''Open'', surface = Some ''Hard'', tournament_round = ''1'',
        odds = None, score = [''6-4'', ''6-3'']\<rparr>], None)"
    by (simp add: example_loop_body)
  have e': "turn_into_matches example_dataset [example_row ''6-4 6-3''] = ([\<lparr>p1 = ''A'', p2 = ''B'', date = ''2015-01-19'', winner = ''A'', stats = (),
        tournament_name = ''Open'', surface = Some ''Hard'', tournament_round = ''1'',
        odds = None, score = [''6-4'', ''6-3'']\<rparr>], None)"
    using e by simp
  have h7: "\<lparr>p1 = ''A'', p2 = ''B'', date = ''2015-01-19'', winner = ''A'', stats = (),
        tournament_name = ''Open'', surface = Some ''Hard'', tournament_round = ''1'',
        odds = None, score = [''6-4'', ''6-3'']\<rparr> \<in> set (fst (turn_into_matches example_dataset [example_row ''6-4 6-3'']))"
    by (simp only: e') simp
  note t = fewer_than_two_sets_skipped[where D = example_dataset]
  have c: "loop_body example_dataset (example_row ''6-4'') = Continue \<and>
      turn_into_matches example_dataset ([] @ example_row ''6-4'' # [example_row ''6-4 6-3''])
        = turn_into_matches example_dataset ([] @ [example_row ''6-4 6-3''])"
    by (rule t[THEN conjunct2, rule_format]) (rule conjI h1 h2 h3 h4 h5 h6)+
  have d: "\<exists>row\<in>set [example_row ''6-4 6-3'']. \<exists>w l s sc.
      loop_body example_dataset row = Yield \<lparr>p1 = ''A'', p2 = ''B'', date = ''2015-01-19'', winner = ''A'', stats = (),
        tournament_name = ''Open'', surface = Some ''Hard'', tournament_round = ''1'',
        odds = None, score = [''6-4'', ''6-3'']\<rparr> \<and>
      row ''winner'' = Some w \<and> row ''loser'' = Some l \<and> row ''score'' = Some s \<and>
      ParsedStringScore example_dataset s w l = Inr sc \<and>
      2 \<le> length (sets example_dataset sc)"
    by (rule t[THEN conjunct1, rule_format, OF h7])
  show ?thesis
    by (intro conjI h1 h2 h3 h4 h5 h6 h7 d c[THEN conjunct1]) (simp only: c[THEN conjunct2] e)
qed

end
